theory Spec2Isabelle
  imports Main "HOL-Library.Word" "HOL-Library.Sublist"
begin

section \<open>JavaScript values used by \<open>lib/lrs-core/api.js\<close>\<close>

text \<open>
  A JavaScript string is a sequence of 16-bit code units. String literals of the source
  are ASCII and are written with \<open>js\<close>, which maps each character to its code unit.
\<close>

type_synonym jstring = "16 word list"

definition js :: "string \<Rightarrow> jstring" where
  "js s = map (\<lambda>c. of_nat (of_char c)) s"

text \<open>
  The values that flow through the middleware: \<open>req.ctx\<close>, the values of
  \<open>req.signedCookies\<close>, and the \<open>err\<close> and \<open>user\<close> arguments of the
  \<open>UsersAPI.getUser\<close> callback. An object is its list of own properties. The
  middleware only tests these values for truth and passes them on, so a number is kept
  as \<open>NaN\<close> or an integer.
\<close>

datatype jsval =
    JUndefined
  | JNull
  | JBool bool
  | JNaN
  | JNum int
  | JString jstring
  | JObject "(jstring \<times> jsval) list"

text \<open>\<open>ToBoolean\<close>, the test behind \<open>if (x)\<close>, \<open>!x\<close> and \<open>x || y\<close>.\<close>

fun truthy :: "jsval \<Rightarrow> bool" where
  "truthy JUndefined = False"
| "truthy JNull = False"
| "truthy (JBool b) = b"
| "truthy JNaN = False"
| "truthy (JNum n) = (n \<noteq> 0)"
| "truthy (JString s) = (s \<noteq> [])"
| "truthy (JObject ps) = True"

text \<open>
  \<open>o.k = v\<close>: on an object the own property is written (replaced in place, or added at
  the end). The file is not in strict mode, so on a primitive the assignment is dropped.
\<close>

fun assign :: "jstring \<Rightarrow> jsval \<Rightarrow> (jstring \<times> jsval) list \<Rightarrow> (jstring \<times> jsval) list" where
  "assign k v [] = [(k, v)]"
| "assign k v (p # ps) = (if fst p = k then (k, v) # ps else p # assign k v ps)"

fun setProp :: "jsval \<Rightarrow> jstring \<Rightarrow> jsval \<Rightarrow> jsval" where
  "setProp (JObject ps) k v = JObject (assign k v ps)"
| "setProp x k v = x"

text \<open>\<open>o.k\<close> on an object; \<open>undefined\<close> when there is no such own property.\<close>

fun getProp :: "jsval \<Rightarrow> jstring \<Rightarrow> jsval" where
  "getProp (JObject ps) k = (case map_of ps k of None \<Rightarrow> JUndefined | Some v \<Rightarrow> v)"
| "getProp x k = JUndefined"

section \<open>The built-ins the cookie name is computed with\<close>

subsection \<open>\<open>String.prototype.split\<close> with a separator of one code unit, and indexing\<close>

text \<open>
  \<open>s.split('/')\<close> cuts at every occurrence of the separator; the empty string gives
  one empty piece.
\<close>

fun js_split :: "16 word \<Rightarrow> jstring \<Rightarrow> jstring list" where
  "js_split sep [] = [[]]"
| "js_split sep (c # cs) =
     (if c = sep then [] # js_split sep cs
      else (case js_split sep cs of
              [] \<Rightarrow> [[c]]
            | piece # pieces \<Rightarrow> (c # piece) # pieces))"

text \<open>\<open>xs[i]\<close> on an array of strings: \<open>undefined\<close> (\<open>None\<close>) beyond its end.\<close>

definition js_index :: "jstring list \<Rightarrow> nat \<Rightarrow> jstring option" where
  "js_index xs i = (if i < length xs then Some (xs ! i) else None)"

text \<open>
  \<open>ToString\<close>, which \<open>decodeURIComponent\<close> applies to its argument: a string is
  itself, \<open>undefined\<close> is the string \<open>undefined\<close>.
\<close>

fun ToString :: "jstring option \<Rightarrow> jstring" where
  "ToString (Some s) = s"
| "ToString None = js ''undefined''"

subsection \<open>\<open>decodeURIComponent\<close>\<close>

datatype exn = URIError

definition hexval :: "16 word \<Rightarrow> nat option" where
  "hexval c =
     (let n = unat c in
      if 48 \<le> n \<and> n \<le> 57 then Some (n - 48)
      else if 65 \<le> n \<and> n \<le> 70 then Some (n - 55)
      else if 97 \<le> n \<and> n \<le> 102 then Some (n - 87)
      else None)"

text \<open>An escape \<open>%XX\<close> at the front of the string: its octet and the rest.\<close>

fun read_octet :: "jstring \<Rightarrow> (nat \<times> jstring) option" where
  "read_octet (p # h1 # h2 # rest) =
     (if p = 37 then
        (case hexval h1 of
           None \<Rightarrow> None
         | Some a \<Rightarrow> (case hexval h2 of None \<Rightarrow> None | Some b \<Rightarrow> Some (16 * a + b, rest)))
      else None)"
| "read_octet s = None"

fun read_octets :: "nat \<Rightarrow> jstring \<Rightarrow> (nat list \<times> jstring) option" where
  "read_octets 0 s = Some ([], s)"
| "read_octets (Suc n) s =
     (case read_octet s of
        None \<Rightarrow> None
      | Some (b, rest) \<Rightarrow>
          (case read_octets n rest of
             None \<Rightarrow> None
           | Some (bs, rest') \<Rightarrow> Some (b # bs, rest')))"

text \<open>The number of leading 1 bits of an octet.\<close>

definition leading_ones :: "nat \<Rightarrow> nat" where
  "leading_ones b =
     (if b < 128 then 0 else if b < 192 then 1 else if b < 224 then 2
      else if b < 240 then 3 else if b < 248 then 4 else 5)"

definition continuation :: "nat \<Rightarrow> bool" where
  "continuation b = (128 \<le> b \<and> b < 192)"

text \<open>
  The code point of a well-formed UTF-8 sequence of two to four octets: continuation
  octets only, no overlong form, no surrogate, nothing above U+10FFFF.
\<close>

fun utf8_decode :: "nat list \<Rightarrow> nat option" where
  "utf8_decode [b0, b1] =
     (let cp = (b0 - 192) * 64 + (b1 - 128) in
      if continuation b1 \<and> 128 \<le> cp then Some cp else None)"
| "utf8_decode [b0, b1, b2] =
     (let cp = (b0 - 224) * 4096 + (b1 - 128) * 64 + (b2 - 128) in
      if continuation b1 \<and> continuation b2 \<and> 2048 \<le> cp \<and> \<not> (55296 \<le> cp \<and> cp \<le> 57343)
      then Some cp else None)"
| "utf8_decode [b0, b1, b2, b3] =
     (let cp = (b0 - 240) * 262144 + (b1 - 128) * 4096 + (b2 - 128) * 64 + (b3 - 128) in
      if continuation b1 \<and> continuation b2 \<and> continuation b3 \<and> 65536 \<le> cp \<and> cp \<le> 1114111
      then Some cp else None)"
| "utf8_decode bs = None"

definition UTF16Encode :: "nat \<Rightarrow> jstring" where
  "UTF16Encode cp =
     (if cp < 65536 then [of_nat cp]
      else [of_nat (55296 + (cp - 65536) div 1024), of_nat (56320 + (cp - 65536) mod 1024)])"

text \<open>
  The decoding loop with an empty reserved set. Every failure raises \<open>URIError\<close>:
  a \<open>%\<close> not followed by two hex digits, a first octet that is a continuation octet or
  has more than four leading 1 bits, a following octet that is missing, and an octet
  sequence that is not well-formed UTF-8.
\<close>

function decodeURIComponent :: "jstring \<Rightarrow> exn + jstring" where
  "decodeURIComponent [] = Inr []"
| "decodeURIComponent (c # cs) =
     (if c \<noteq> 37 then
        (case decodeURIComponent cs of Inl e \<Rightarrow> Inl e | Inr r \<Rightarrow> Inr (c # r))
      else
        (case read_octet (c # cs) of
           None \<Rightarrow> Inl URIError
         | Some (b, rest) \<Rightarrow>
             if leading_ones b = 0 then
               (case decodeURIComponent rest of Inl e \<Rightarrow> Inl e | Inr r \<Rightarrow> Inr (of_nat b # r))
             else if leading_ones b = 1 \<or> 4 < leading_ones b then Inl URIError
             else
               (case read_octets (leading_ones b - 1) rest of
                  None \<Rightarrow> Inl URIError
                | Some (bs, rest') \<Rightarrow>
                    (case utf8_decode (b # bs) of
                       None \<Rightarrow> Inl URIError
                     | Some cp \<Rightarrow>
                         (case decodeURIComponent rest' of
                            Inl e \<Rightarrow> Inl e
                          | Inr r \<Rightarrow> Inr (UTF16Encode cp @ r))))))"
  by pat_completeness auto
termination
proof -
  have octet: "length rest < length s" if "read_octet s = Some (b, rest)" for s b rest
    using that by (induction s rule: read_octet.induct) (auto split: if_splits option.splits)
  have octets: "length rest \<le> length s" if "read_octets n s = Some (bs, rest)" for n s bs rest
    using that
  proof (induction n arbitrary: s bs rest)
    case 0
    then show ?case by simp
  next
    case (Suc n)
    then show ?case
      by (fastforce split: option.splits dest: octet)
  qed
  show ?thesis
  proof (relation "measure length", goal_cases)
    case 1
    then show ?case by simp
  next
    case (2 c cs)
    then show ?case by simp
  next
    case (3 c cs x b rest)
    then show ?case
      using octet [of "c # cs" b rest] by simp
  next
    case (4 c cs x b rest y bs rest' cp)
    then show ?case
      using octet [of "c # cs" b rest] octets [of _ rest bs rest']
      by fastforce
  qed
qed

subsection \<open>\<open>encodeURIComponent\<close>\<close>

text \<open>The code units left as they are: letters, digits and \<open>- _ . ! ~ * ' ( )\<close>.\<close>

definition unescaped :: "16 word \<Rightarrow> bool" where
  "unescaped c =
     (let n = unat c in
      (65 \<le> n \<and> n \<le> 90) \<or> (97 \<le> n \<and> n \<le> 122) \<or> (48 \<le> n \<and> n \<le> 57)
      \<or> n \<in> {45, 95, 46, 33, 126, 42, 39, 40, 41})"

definition hexdigit :: "nat \<Rightarrow> 16 word" where
  "hexdigit d = (if d < 10 then of_nat (48 + d) else of_nat (55 + d))"

definition pct :: "nat \<Rightarrow> jstring" where
  "pct b = [37, hexdigit (b div 16), hexdigit (b mod 16)]"

definition utf8_encode :: "nat \<Rightarrow> nat list" where
  "utf8_encode cp =
     (if cp < 128 then [cp]
      else if cp < 2048 then [192 + cp div 64, 128 + cp mod 64]
      else if cp < 65536 then [224 + cp div 4096, 128 + (cp div 64) mod 64, 128 + cp mod 64]
      else [240 + cp div 262144, 128 + (cp div 4096) mod 64,
            128 + (cp div 64) mod 64, 128 + cp mod 64])"

definition lead_surrogate :: "16 word \<Rightarrow> bool" where
  "lead_surrogate c = (55296 \<le> unat c \<and> unat c \<le> 56319)"

definition trail_surrogate :: "16 word \<Rightarrow> bool" where
  "trail_surrogate c = (56320 \<le> unat c \<and> unat c \<le> 57343)"

text \<open>
  The encoding loop. A code unit outside the unescaped set is replaced by the escaped
  UTF-8 octets of its code point; a surrogate that is not half of a pair raises
  \<open>URIError\<close>.
\<close>

fun encodeURIComponent :: "jstring \<Rightarrow> exn + jstring" where
  "encodeURIComponent [] = Inr []"
| "encodeURIComponent (c # cs) =
     (if unescaped c then
        (case encodeURIComponent cs of Inl e \<Rightarrow> Inl e | Inr r \<Rightarrow> Inr (c # r))
      else if trail_surrogate c then Inl URIError
      else if lead_surrogate c then
        (case cs of
           [] \<Rightarrow> Inl URIError
         | d # ds \<Rightarrow>
             if trail_surrogate d then
               (case encodeURIComponent ds of
                  Inl e \<Rightarrow> Inl e
                | Inr r \<Rightarrow>
                    Inr (concat (map pct (utf8_encode
                           ((unat c - 55296) * 1024 + (unat d - 56320) + 65536))) @ r))
             else Inl URIError)
      else
        (case encodeURIComponent cs of
           Inl e \<Rightarrow> Inl e
         | Inr r \<Rightarrow> Inr (concat (map pct (utf8_encode (unat c))) @ r)))"

section \<open>The authorization middleware\<close>

text \<open>
  The request as the middleware uses it: \<open>req.ctx\<close> (\<open>undefined\<close> until somebody
  sets it), \<open>req.baseUrl\<close> and \<open>req.signedCookies\<close>. The response is its status
  code and the body sent, if any.
\<close>

record request =
  ctx :: jsval
  baseUrl :: jstring
  signedCookies :: "jstring \<rightharpoonup> jsval"

record response =
  statusCode :: nat
  body :: "jstring option"

text \<open>
  What the middleware does to its collaborators, in order: the read of
  \<open>req.signedCookies[cookieName]\<close>, the call \<open>UsersAPI.getUser(userId, ...)\<close>, and
  the call of \<open>next\<close>, without argument (\<open>None\<close>) or with an error.
\<close>

datatype call =
    ReadSignedCookie jstring
  | CallGetUser jsval
  | CallNext "jsval option"

record outcome =
  request_after :: request
  response_after :: response
  calls :: "call list"

text \<open>
  Lines 127 to 132: the third and fourth piece of \<open>req.baseUrl.split('/')\<close>, each
  decoded, joined by an underscore and encoded. An exception of a decoder or of the
  encoder leaves the function.
\<close>

definition cookieName :: "jstring \<Rightarrow> exn + jstring" where
  "cookieName url =
     (case decodeURIComponent (ToString (js_index (js_split 47 url) 2)) of
        Inl e \<Rightarrow> Inl e
      | Inr apiDomain \<Rightarrow>
          (case decodeURIComponent (ToString (js_index (js_split 47 url) 3)) of
             Inl e \<Rightarrow> Inl e
           | Inr courseId \<Rightarrow> encodeURIComponent (apiDomain @ js ''_'' @ courseId)))"

text \<open>\<open>res.status(401).send('Incorrect cookie information present')\<close>\<close>

definition unauthorized :: "response \<Rightarrow> response" where
  "unauthorized res =
     res\<lparr>statusCode := 401, body := Some (js ''Incorrect cookie information present'')\<rparr>"

text \<open>
  The function registered by \<open>apiRouter.use\<close>. \<open>getUser\<close> stands for
  \<open>UsersAPI.getUser\<close>: it maps the user id to the pair \<open>(err, user)\<close> its callback is
  called with, once. The result is the exception thrown, or the request and the response
  as the middleware leaves them together with the calls it made.
\<close>

definition authorizationMiddleware ::
  "(jsval \<Rightarrow> jsval \<times> jsval) \<Rightarrow> request \<Rightarrow> response \<Rightarrow> exn + outcome" where
  "authorizationMiddleware getUser req res =
     (if truthy (ctx req) then
        Inr \<lparr>request_after = req, response_after = res, calls = [CallNext None]\<rparr>
      else
        (case cookieName (baseUrl req) of
           Inl e \<Rightarrow> Inl e
         | Inr name \<Rightarrow>
             (let userId = (case signedCookies req name of None \<Rightarrow> JUndefined | Some v \<Rightarrow> v) in
              if \<not> truthy userId then
                Inr \<lparr>request_after = req, response_after = unauthorized res,
                     calls = [ReadSignedCookie name]\<rparr>
              else
                (case getUser userId of
                   (err, user) \<Rightarrow>
                     if truthy err then
                       Inr \<lparr>request_after = req, response_after = res,
                            calls = [ReadSignedCookie name, CallGetUser userId,
                                     CallNext (Some err)]\<rparr>
                     else
                       Inr \<lparr>request_after =
                              req\<lparr>ctx := setProp (if truthy (ctx req) then ctx req else JObject [])
                                                   (js ''user'') user\<rparr>,
                            response_after = res,
                            calls = [ReadSignedCookie name, CallGetUser userId,
                                     CallNext None]\<rparr>))))"

section \<open>Startup\<close>

text \<open>
  What \<open>DB.init\<close> and \<open>Modules.init\<close> do with the callback they are given: they
  invoke it, once, with some arguments; or they return and never invoke it; or they
  throw instead of invoking it.
\<close>

datatype completion = Invokes "jsval list" | NeverInvokes | Throws jsval

text \<open>The calls startup makes, in the order it makes them.\<close>

datatype effect =
    RequireGlobals
  | OnUncaughtException
  | DBInit
  | ModulesInit
  | SetUpServer
  | CreateRouter
  | RouterUseAuthorization
  | AppUse jstring
  | GetAvailableModules
  | ExistsSync jstring
  | LogDebug jstring
  | Require jstring
  | LogInfo jstring
  | Callback "jsval list"

text \<open>
  The collaborators of startup: the two initializers, the list returned by
  \<open>Modules.getAvailableModules()\<close>, \<open>fs.existsSync\<close>, \<open>path.join\<close> and
  \<open>__dirname\<close>. Any other call may end with an exception instead of returning, a
  \<open>require\<close> of a \<open>rest.js\<close> that raises while it is loaded for one: \<open>throws\<close>
  gives the exception of a call, \<open>None\<close> when the call returns.
\<close>

record collaborators =
  DB_init :: completion
  Modules_init :: completion
  availableModules :: "jstring list"
  existsSync :: "jstring \<Rightarrow> bool"
  path_join :: "jstring list \<Rightarrow> jstring"
  dirname :: jstring
  throws :: "effect \<Rightarrow> jsval option"

text \<open>
  A piece of startup code that has run: the calls it made and the exception it ended
  with, if any. There is no \<open>try\<close> in the file, so an exception ends everything that
  was to follow in the same function and in its callers.
\<close>

record run =
  effects :: "effect list"
  thrown :: "jsval option"

definition nothing :: run where
  "nothing = \<lparr>effects = [], thrown = None\<rparr>"

text \<open>A call to a collaborator: it is made, and it returns or throws.\<close>

definition call :: "collaborators \<Rightarrow> effect \<Rightarrow> run" where
  "call env e = \<lparr>effects = [e], thrown = throws env e\<rparr>"

text \<open>One statement after another: the second runs when the first has not thrown.\<close>

definition andThen :: "run \<Rightarrow> run \<Rightarrow> run" where
  "andThen r s =
     (case thrown r of
        Some v \<Rightarrow> r
      | None \<Rightarrow> \<lparr>effects = effects r @ effects s, thrown = thrown s\<rparr>)"

fun statements :: "run list \<Rightarrow> run" where
  "statements [] = nothing"
| "statements (r # rs) = andThen r (statements rs)"

text \<open>
  \<open>DB.init(callback)\<close> and \<open>Modules.init(callback)\<close>: the call is made, and the
  callback runs when the initializer invokes it. Both continuations of the file are
  \<open>function() {...}\<close>, without parameters, so the arguments they are invoked with are
  not looked at.
\<close>

definition initializer :: "effect \<Rightarrow> completion \<Rightarrow> run \<Rightarrow> run" where
  "initializer e c callback =
     (case c of
        Invokes args \<Rightarrow> andThen \<lparr>effects = [e], thrown = None\<rparr> callback
      | NeverInvokes \<Rightarrow> \<lparr>effects = [e], thrown = None\<rparr>
      | Throws v \<Rightarrow> \<lparr>effects = [e], thrown = Some v\<rparr>)"

text \<open>\<open>path.join(__dirname, '..', module, '/rest.js')\<close>\<close>

definition restFile :: "collaborators \<Rightarrow> jstring \<Rightarrow> jstring" where
  "restFile env m = path_join env [dirname env, js ''..'', m, js ''/rest.js'']"

text \<open>
  The loop \<open>_.each(lrsModules, function(module) {...})\<close> of lines 92 to 98;
  \<open>util.format\<close> puts the module name in place of \<open>%s\<close>.
\<close>

fun discoverRoutes :: "collaborators \<Rightarrow> jstring list \<Rightarrow> run" where
  "discoverRoutes env [] = nothing"
| "discoverRoutes env (m # ms) =
     statements
       [call env (ExistsSync (restFile env m)),
        (if existsSync env (restFile env m)
         then statements
                [call env (LogDebug (js ''Registering REST APIs for '' @ m)),
                 call env (Require (restFile env m))]
         else nothing),
        discoverRoutes env ms]"

definition initializeAuthorizationMiddleware :: "collaborators \<Rightarrow> run" where
  "initializeAuthorizationMiddleware env = call env RouterUseAuthorization"

definition initializeServer :: "collaborators \<Rightarrow> run" where
  "initializeServer env =
     statements
       [call env SetUpServer,
        call env CreateRouter,
        initializeAuthorizationMiddleware env,
        call env (AppUse (js ''/api/:apidomain/:course'')),
        call env GetAvailableModules,
        discoverRoutes env (availableModules env),
        call env (LogInfo (js ''Finished initializing REST APIs''))]"

definition init :: "collaborators \<Rightarrow> run" where
  "init env =
     statements
       [call env RequireGlobals,
        call env OnUncaughtException,
        initializer DBInit (DB_init env)
          (initializer ModulesInit (Modules_init env)
             (statements [initializeServer env, call env (Callback [])]))]"

text \<open>The paths probed with \<open>fs.existsSync\<close> and the files loaded with \<open>require\<close>.\<close>

fun probed :: "effect list \<Rightarrow> jstring list" where
  "probed [] = []"
| "probed (ExistsSync p # es) = p # probed es"
| "probed (e # es) = probed es"

fun loaded :: "effect list \<Rightarrow> jstring list" where
  "loaded [] = []"
| "loaded (Require p # es) = p # loaded es"
| "loaded (e # es) = loaded es"

text \<open>
  The orders of sections 4.2 and 4.3 of the specification, for comparison with \<open>init\<close>
  and \<open>discoverRoutes\<close>. Route discovery: the modules in the order of the list, for each
  the probe, followed by the load when the file exists. Startup: database initialization,
  module initialization, server setup with the registration of the authorization
  middleware, route discovery, and the callback of \<open>init\<close>.
\<close>

definition discovery_order :: "collaborators \<Rightarrow> jstring list \<Rightarrow> effect list" where
  "discovery_order env ms =
     concat (map (\<lambda>m. if existsSync env (restFile env m)
                       then [ExistsSync (restFile env m),
                             LogDebug (js ''Registering REST APIs for '' @ m),
                             Require (restFile env m)]
                       else [ExistsSync (restFile env m)]) ms)"


subsection \<open>An installation to run startup on\<close>

text \<open>
  \<open>path.join\<close> of POSIX: the non-empty arguments joined by a slash and normalized
  (empty and \<open>.\<close> segments dropped, \<open>..\<close> removing the segment before it).
\<close>

fun normalize_segments :: "bool \<Rightarrow> jstring list \<Rightarrow> jstring list \<Rightarrow> jstring list" where
  "normalize_segments above_root acc [] = rev acc"
| "normalize_segments above_root acc (seg # segs) =
     (if seg = [] \<or> seg = js ''.'' then normalize_segments above_root acc segs
      else if seg = js ''..'' then
        (case acc of
           [] \<Rightarrow> normalize_segments above_root (if above_root then [seg] else []) segs
         | prev # others \<Rightarrow>
             if prev = js ''..'' then normalize_segments above_root (seg # acc) segs
             else normalize_segments above_root others segs)
      else normalize_segments above_root (seg # acc) segs)"

fun join_with :: "jstring \<Rightarrow> jstring list \<Rightarrow> jstring" where
  "join_with sep [] = []"
| "join_with sep [x] = x"
| "join_with sep (x # y # ys) = x @ sep @ join_with sep (y # ys)"

definition posix_normalize :: "jstring \<Rightarrow> jstring" where
  "posix_normalize p =
     (if p = [] then js ''.''
      else
        (let absolute = (hd p = 47);
             trailing = (last p = 47);
             inner = join_with (js ''/'') (normalize_segments (\<not> absolute) [] (js_split 47 p));
             inner' = (if inner = [] \<and> \<not> absolute then js ''.'' else inner);
             inner'' = (if inner' \<noteq> [] \<and> trailing then inner' @ js ''/'' else inner')
         in if absolute then 47 # inner'' else inner''))"

definition posix_join :: "jstring list \<Rightarrow> jstring" where
  "posix_join args =
     (if filter (\<lambda>a. a \<noteq> []) args = [] then js ''.''
      else posix_normalize (join_with (js ''/'') (filter (\<lambda>a. a \<noteq> []) args)))"

text \<open>
  Two modules, of which only \<open>lrs-users\<close> has a \<open>rest.js\<close>; no call throws; the
  database initializer is left open.
\<close>

definition installation :: "completion \<Rightarrow> collaborators" where
  "installation db =
     \<lparr>DB_init = db,
      Modules_init = Invokes [],
      availableModules = [js ''lrs-core'', js ''lrs-users''],
      existsSync = (\<lambda>p. p = js ''/srv/lrs/lib/lrs-users/rest.js''),
      path_join = posix_join,
      dirname = js ''/srv/lrs/lib/lrs-core'',
      throws = (\<lambda>e. None)\<rparr>"

text \<open>
  The same installation where both modules have a \<open>rest.js\<close> and the one of
  \<open>lrs-core\<close> raises an error while it is loaded.
\<close>

definition load_error :: jsval where
  "load_error = JObject [(js ''name'', JString (js ''ReferenceError''))]"

definition broken_installation :: collaborators where
  "broken_installation =
     \<lparr>DB_init = Invokes [],
      Modules_init = Invokes [],
      availableModules = [js ''lrs-core'', js ''lrs-users''],
      existsSync = (\<lambda>p. True),
      path_join = posix_join,
      dirname = js ''/srv/lrs/lib/lrs-core'',
      throws = (\<lambda>e. case e of
                      Require p \<Rightarrow>
                        if p = js ''/srv/lrs/lib/lrs-core/rest.js'' then Some load_error else None
                    | _ \<Rightarrow> None)\<rparr>"

section \<open>Properties of the built-ins\<close>

lemma js_split_nonempty: "js_split sep s \<noteq> []"
  by (induction s) (auto split: list.splits)

lemma js_split_no_sep: "sep \<notin> set a \<Longrightarrow> js_split sep a = [a]"
  by (induction a) auto

lemma js_split_append:
  "sep \<notin> set a \<Longrightarrow> js_split sep (a @ sep # b) = a # js_split sep b"
  by (induction a) auto

lemma js_split_api_2:
  assumes "47 \<notin> set d" and "47 \<notin> set c"
  shows "js_split 47 (js ''/api/'' @ d @ 47 # c) = [[], js ''api'', d, c]"
  using assms by (simp add: js_def js_split_append js_split_no_sep)

lemma js_split_api_3:
  assumes "47 \<notin> set d" and "47 \<notin> set c"
  shows "js_split 47 (js ''/api/'' @ d @ 47 # c @ 47 # t) = [] # js ''api'' # d # c # js_split 47 t"
  using assms by (simp add: js_def js_split_append)

section \<open>Properties of the cookie name\<close>

lemma js_index_simps:
  "js_index (a # b # c # xs) 2 = Some c"
  "js_index (a # b # c # d # xs) 3 = Some d"
  by (simp_all add: js_index_def)

lemma cookieName_of_pieces:
  assumes "js_split 47 url = a # b # d # c # others"
  shows "cookieName url =
           (case decodeURIComponent d of
              Inl e \<Rightarrow> Inl e
            | Inr apiDomain \<Rightarrow>
                (case decodeURIComponent c of
                   Inl e \<Rightarrow> Inl e
                 | Inr courseId \<Rightarrow> encodeURIComponent (apiDomain @ js ''_'' @ courseId)))"
  by (simp add: cookieName_def assms js_index_simps split: sum.splits)

lemma cookieName_ucberkeley:
  "cookieName (js ''/api/ucberkeley.canvas.com/21312'') = Inr (js ''ucberkeley.canvas.com_21312'')"
  by (simp add: cookieName_def js_def js_index_def unescaped_def)

lemma cookieName_api: "cookieName (js ''/api'') = Inr (js ''undefined_undefined'')"
  by (simp add: cookieName_def js_def js_index_def unescaped_def)

lemma cookieName_a_b_c:
  "cookieName (js ''/api/a_b/c'') = Inr (js ''a_b_c'')"
  "cookieName (js ''/api/a/b_c'') = Inr (js ''a_b_c'')"
  by (simp_all add: cookieName_def js_def js_index_def unescaped_def)

text \<open>
  C4. For a request path \<open>/api/{d}/{c}\<close> or \<open>/api/{d}/{c}/...\<close>, the cookie key
  looked up is \<open>encodeURIComponent(decodeURIComponent(d) + "_" + decodeURIComponent(c))\<close>;
  for the domain \<open>ucberkeley.canvas.com\<close> and the course \<open>21312\<close> it is the
  URL-encoding of \<open>ucberkeley.canvas.com_21312\<close>.
\<close>

theorem cookie_key_from_path:
  assumes "47 \<notin> set d" and "47 \<notin> set c"
    and "decodeURIComponent d = Inr apiDomain" and "decodeURIComponent c = Inr courseId"
  shows "cookieName (js ''/api/'' @ d @ js ''/'' @ c) = encodeURIComponent (apiDomain @ js ''_'' @ courseId)
       \<and> cookieName (js ''/api/'' @ d @ js ''/'' @ c @ js ''/'' @ t) = encodeURIComponent (apiDomain @ js ''_'' @ courseId)
       \<and> cookieName (js ''/api/ucberkeley.canvas.com/21312'') = encodeURIComponent (js ''ucberkeley.canvas.com_21312'')"
proof -
  have slash: "js ''/'' = [47]" by (simp add: js_def)
  have "cookieName (js ''/api/'' @ d @ 47 # c) = encodeURIComponent (apiDomain @ js ''_'' @ courseId)"
    using cookieName_of_pieces [OF js_split_api_2 [OF assms(1,2)]] assms(3,4) by simp
  moreover have "cookieName (js ''/api/'' @ d @ 47 # c @ 47 # t) = encodeURIComponent (apiDomain @ js ''_'' @ courseId)"
  proof -
    obtain p ps where "js_split 47 t = p # ps"
      using js_split_nonempty [of 47 t] by (cases "js_split 47 t") auto
    then have "js_split 47 (js ''/api/'' @ d @ 47 # c @ 47 # t) = [] # js ''api'' # d # c # p # ps"
      using js_split_api_3 [OF assms(1,2)] by simp
    from cookieName_of_pieces [OF this] assms(3,4) show ?thesis by simp
  qed
  moreover have "cookieName (js ''/api/ucberkeley.canvas.com/21312'') = encodeURIComponent (js ''ucberkeley.canvas.com_21312'')"
    by (simp add: cookieName_ucberkeley) (simp add: js_def unescaped_def)
  ultimately show ?thesis by (simp add: slash)
qed

theorem cookie_key_from_path_witness:
  "47 \<notin> set (js ''uc%20b'') \<and> 47 \<notin> set (js ''2%2F1'')
   \<and> decodeURIComponent (js ''uc%20b'') = Inr (js ''uc b'')
   \<and> decodeURIComponent (js ''2%2F1'') = Inr (js ''2/1'')
   \<and> cookieName (js ''/api/'' @ js ''uc%20b'' @ js ''/'' @ js ''2%2F1'' @ js ''/'' @ js ''statements'')
       = Inr (js ''uc%20b_2%2F1'')"
proof -
  have d: "47 \<notin> set (js ''uc%20b'')" and c: "47 \<notin> set (js ''2%2F1'')"
    by (simp_all add: js_def)
  have dd: "decodeURIComponent (js ''uc%20b'') = Inr (js ''uc b'')"
    by (simp add: js_def hexval_def leading_ones_def)
  have dc: "decodeURIComponent (js ''2%2F1'') = Inr (js ''2/1'')"
    by (simp add: js_def hexval_def leading_ones_def)
  have enc: "encodeURIComponent (js ''uc b'' @ js ''_'' @ js ''2/1'') = Inr (js ''uc%20b_2%2F1'')"
    by (simp add: js_def unescaped_def trail_surrogate_def lead_surrogate_def
        utf8_encode_def pct_def hexdigit_def)
  from cookie_key_from_path [OF d c dd dc, of "js ''statements''"] enc d c dd dc
  show ?thesis by simp
qed

text \<open>
  C9. The cookie key is not injective in the pair of tenant domain and course id: the
  encoder leaves the underscore as it is, the distinct pairs \<open>(a_b, c)\<close> and
  \<open>(a, b_c)\<close> have the same cookie name \<open>a_b_c\<close>, and one signed cookie of that
  name authorizes a request for either pair.
\<close>

theorem cookie_key_not_injective:
  "(js ''a_b'', js ''c'') \<noteq> (js ''a'', js ''b_c'')
   \<and> encodeURIComponent (js ''_'') = Inr (js ''_'')
   \<and> cookieName (js ''/api/a_b/c'') = Inr (js ''a_b_c'')
   \<and> cookieName (js ''/api/a/b_c'') = Inr (js ''a_b_c'')
   \<and> authorizationMiddleware (\<lambda>u. (JNull, JObject [(js ''id'', u)]))
        \<lparr>ctx = JUndefined, baseUrl = js ''/api/a_b/c'',
         signedCookies = [js ''a_b_c'' \<mapsto> JString (js ''42'')]\<rparr> res =
       Inr \<lparr>request_after =
              \<lparr>ctx = JObject [(js ''user'', JObject [(js ''id'', JString (js ''42''))])],
               baseUrl = js ''/api/a_b/c'',
               signedCookies = [js ''a_b_c'' \<mapsto> JString (js ''42'')]\<rparr>,
            response_after = res,
            calls = [ReadSignedCookie (js ''a_b_c''), CallGetUser (JString (js ''42'')),
                     CallNext None]\<rparr>
   \<and> authorizationMiddleware (\<lambda>u. (JNull, JObject [(js ''id'', u)]))
        \<lparr>ctx = JUndefined, baseUrl = js ''/api/a/b_c'',
         signedCookies = [js ''a_b_c'' \<mapsto> JString (js ''42'')]\<rparr> res =
       Inr \<lparr>request_after =
              \<lparr>ctx = JObject [(js ''user'', JObject [(js ''id'', JString (js ''42''))])],
               baseUrl = js ''/api/a/b_c'',
               signedCookies = [js ''a_b_c'' \<mapsto> JString (js ''42'')]\<rparr>,
            response_after = res,
            calls = [ReadSignedCookie (js ''a_b_c''), CallGetUser (JString (js ''42'')),
                     CallNext None]\<rparr>"
proof -
  have "(js ''a_b'', js ''c'') \<noteq> (js ''a'', js ''b_c'')"
    by (simp add: js_def)
  moreover have "encodeURIComponent (js ''_'') = Inr (js ''_'')"
    by (simp add: js_def unescaped_def)
  moreover have "truthy (JString (js ''42''))"
    by (simp add: js_def)
  ultimately show ?thesis
    by (simp add: authorizationMiddleware_def cookieName_a_b_c Let_def)
qed

section \<open>Properties of the authorization middleware\<close>

text \<open>
  When a segment is not decodable, no cookie name is computed: the exception leaves the
  middleware, which has made no call and written no response by then.
\<close>

lemma cookieName_malformed: "cookieName (js ''/api/%/21312'') = Inl URIError"
  by (simp add: cookieName_def js_def js_index_def)

lemma authorizationMiddleware_throws:
  assumes "\<not> truthy (ctx req)" and "cookieName (baseUrl req) = Inl e"
  shows "authorizationMiddleware getUser req res = Inl e"
  using assms by (simp add: authorizationMiddleware_def)

text \<open>Without a context, the first thing the middleware does is read the cookie.\<close>

lemma authorizationMiddleware_reads_cookieName:
  assumes "\<not> truthy (ctx req)" and "cookieName (baseUrl req) = Inr k"
  shows "\<exists>out. authorizationMiddleware getUser req res = Inr out
               \<and> hd (calls out) = ReadSignedCookie k"
  using assms
  by (auto simp: authorizationMiddleware_def Let_def split: prod.splits)

text \<open>Any truthy \<open>req.ctx\<close> takes the first branch.\<close>

lemma truthy_context_passes_through:
  assumes "truthy (ctx req)"
  shows "authorizationMiddleware getUser req res =
           Inr \<lparr>request_after = req, response_after = res, calls = [CallNext None]\<rparr>"
  using assms by (simp add: authorizationMiddleware_def)

text \<open>
  C1. A request without a context, for which no signed cookie is found under the
  computed cookie name, is answered with status 401 and the body
  \<open>Incorrect cookie information present\<close>, and \<open>next\<close> is not called. This includes
  a path that does not have the two segments: for \<open>/api\<close> the computed name is
  \<open>undefined_undefined\<close>.
\<close>

theorem missing_cookie_unauthorized:
  assumes "\<not> truthy (ctx req)"
    and "cookieName (baseUrl req) = Inr k"
    and "signedCookies req k = None"
  shows "authorizationMiddleware getUser req res =
           Inr \<lparr>request_after = req,
                response_after =
                  res\<lparr>statusCode := 401,
                      body := Some (js ''Incorrect cookie information present'')\<rparr>,
                calls = [ReadSignedCookie k]\<rparr>"
  using assms by (simp add: authorizationMiddleware_def unauthorized_def)

theorem missing_cookie_unauthorized_witness:
  "\<not> truthy (ctx \<lparr>ctx = JUndefined, baseUrl = js ''/api'', signedCookies = Map.empty\<rparr>)
   \<and> cookieName (js ''/api'') = Inr (js ''undefined_undefined'')
   \<and> authorizationMiddleware (\<lambda>u. (JNull, JObject [(js ''id'', u)]))
        \<lparr>ctx = JUndefined, baseUrl = js ''/api'', signedCookies = Map.empty\<rparr>
        \<lparr>statusCode = 200, body = None\<rparr> =
       Inr \<lparr>request_after = \<lparr>ctx = JUndefined, baseUrl = js ''/api'', signedCookies = Map.empty\<rparr>,
            response_after =
              \<lparr>statusCode = 401, body = Some (js ''Incorrect cookie information present'')\<rparr>,
            calls = [ReadSignedCookie (js ''undefined_undefined'')]\<rparr>"
  using missing_cookie_unauthorized
          [of "\<lparr>ctx = JUndefined, baseUrl = js ''/api'', signedCookies = Map.empty\<rparr>"
              "js ''undefined_undefined''" "\<lambda>u. (JNull, JObject [(js ''id'', u)])"
              "\<lparr>statusCode = 200, body = None\<rparr>"]
        cookieName_api
  by simp

text \<open>
  C2. A request without a context whose signed cookie is present, and for whose value
  \<open>UsersAPI.getUser\<close> calls back without an error, gets a context whose \<open>user\<close>
  field is the user of the callback, and then \<open>next\<close> is called without an error.
\<close>

theorem resolved_user_attached:
  assumes "\<not> truthy (ctx req)"
    and "cookieName (baseUrl req) = Inr k"
    and "signedCookies req k = Some userId"
    and "truthy userId"
    and "getUser userId = (err, user)"
    and "\<not> truthy err"
  shows "authorizationMiddleware getUser req res =
           Inr \<lparr>request_after = req\<lparr>ctx := JObject [(js ''user'', user)]\<rparr>,
                response_after = res,
                calls = [ReadSignedCookie k, CallGetUser userId, CallNext None]\<rparr>
       \<and> getProp (JObject [(js ''user'', user)]) (js ''user'') = user"
  using assms by (simp add: authorizationMiddleware_def)

theorem resolved_user_attached_witness:
  "authorizationMiddleware (\<lambda>u. (JNull, JObject [(js ''id'', u)]))
     \<lparr>ctx = JUndefined, baseUrl = js ''/api/ucberkeley.canvas.com/21312'',
      signedCookies = [js ''ucberkeley.canvas.com_21312'' \<mapsto> JString (js ''42'')]\<rparr>
     \<lparr>statusCode = 200, body = None\<rparr> =
   Inr \<lparr>request_after =
          \<lparr>ctx = JObject [(js ''user'', JObject [(js ''id'', JString (js ''42''))])],
           baseUrl = js ''/api/ucberkeley.canvas.com/21312'',
           signedCookies = [js ''ucberkeley.canvas.com_21312'' \<mapsto> JString (js ''42'')]\<rparr>,
        response_after = \<lparr>statusCode = 200, body = None\<rparr>,
        calls = [ReadSignedCookie (js ''ucberkeley.canvas.com_21312''),
                 CallGetUser (JString (js ''42'')), CallNext None]\<rparr>"
proof -
  have t: "truthy (JString (js ''42''))" by (simp add: js_def)
  from resolved_user_attached
         [of "\<lparr>ctx = JUndefined, baseUrl = js ''/api/ucberkeley.canvas.com/21312'',
               signedCookies = [js ''ucberkeley.canvas.com_21312'' \<mapsto> JString (js ''42'')]\<rparr>"
             "js ''ucberkeley.canvas.com_21312''" "JString (js ''42'')"
             "\<lambda>u. (JNull, JObject [(js ''id'', u)])" JNull
             "JObject [(js ''id'', JString (js ''42''))]" "\<lparr>statusCode = 200, body = None\<rparr>"]
       cookieName_ucberkeley t
  show ?thesis by simp
qed

text \<open>
  C3. When the signed cookie is present and \<open>UsersAPI.getUser\<close> calls back with an
  error, that error is passed to \<open>next\<close>; the response is not written and the request,
  its context included, stays as it was.
\<close>

theorem lookup_error_propagated:
  assumes "\<not> truthy (ctx req)"
    and "cookieName (baseUrl req) = Inr k"
    and "signedCookies req k = Some userId"
    and "truthy userId"
    and "getUser userId = (err, user)"
    and "truthy err"
  shows "authorizationMiddleware getUser req res =
           Inr \<lparr>request_after = req, response_after = res,
                calls = [ReadSignedCookie k, CallGetUser userId, CallNext (Some err)]\<rparr>"
  using assms by (simp add: authorizationMiddleware_def)

theorem lookup_error_propagated_witness:
  "authorizationMiddleware (\<lambda>u. (JObject [(js ''code'', JNum 404)], JUndefined))
     \<lparr>ctx = JUndefined, baseUrl = js ''/api/ucberkeley.canvas.com/21312'',
      signedCookies = [js ''ucberkeley.canvas.com_21312'' \<mapsto> JString (js ''42'')]\<rparr>
     \<lparr>statusCode = 200, body = None\<rparr> =
   Inr \<lparr>request_after =
          \<lparr>ctx = JUndefined, baseUrl = js ''/api/ucberkeley.canvas.com/21312'',
           signedCookies = [js ''ucberkeley.canvas.com_21312'' \<mapsto> JString (js ''42'')]\<rparr>,
        response_after = \<lparr>statusCode = 200, body = None\<rparr>,
        calls = [ReadSignedCookie (js ''ucberkeley.canvas.com_21312''),
                 CallGetUser (JString (js ''42'')),
                 CallNext (Some (JObject [(js ''code'', JNum 404)]))]\<rparr>"
proof -
  have t: "truthy (JString (js ''42''))" by (simp add: js_def)
  from lookup_error_propagated
         [of "\<lparr>ctx = JUndefined, baseUrl = js ''/api/ucberkeley.canvas.com/21312'',
               signedCookies = [js ''ucberkeley.canvas.com_21312'' \<mapsto> JString (js ''42'')]\<rparr>"
             "js ''ucberkeley.canvas.com_21312''" "JString (js ''42'')"
             "\<lambda>u. (JObject [(js ''code'', JNum 404)], JUndefined)"
             "JObject [(js ''code'', JNum 404)]" JUndefined "\<lparr>statusCode = 200, body = None\<rparr>"]
       cookieName_ucberkeley t
  show ?thesis by simp
qed

text \<open>
  C5. A request that already carries a context object passes through: \<open>next\<close> is
  called at once, the request, its context and its cookies, and the response are
  unchanged, and neither a cookie is read nor \<open>UsersAPI.getUser\<close> called.
\<close>

theorem existing_context_passes_through:
  assumes "ctx req = JObject props"
  shows "authorizationMiddleware getUser req res =
           Inr \<lparr>request_after = req, response_after = res, calls = [CallNext None]\<rparr>"
  using assms by (simp add: authorizationMiddleware_def)

theorem existing_context_passes_through_witness:
  "authorizationMiddleware (\<lambda>u. (JNull, JObject [(js ''id'', u)]))
     \<lparr>ctx = JObject [], baseUrl = js ''/api/%/21312'', signedCookies = Map.empty\<rparr>
     \<lparr>statusCode = 200, body = None\<rparr> =
   Inr \<lparr>request_after =
          \<lparr>ctx = JObject [], baseUrl = js ''/api/%/21312'', signedCookies = Map.empty\<rparr>,
        response_after = \<lparr>statusCode = 200, body = None\<rparr>,
        calls = [CallNext None]\<rparr>"
  using existing_context_passes_through
          [of "\<lparr>ctx = JObject [], baseUrl = js ''/api/%/21312'', signedCookies = Map.empty\<rparr>"
              "[]" "\<lambda>u. (JNull, JObject [(js ''id'', u)])" "\<lparr>statusCode = 200, body = None\<rparr>"]
  by simp

text \<open>
  C10. A signed cookie that is present under the cookie name with a falsy value, such as
  the empty string, is treated like an absent one: the request without a context is
  answered with status 401 and the fixed body, \<open>UsersAPI.getUser\<close> is not called, and
  the response and the calls are those for the request with the cookie removed.
\<close>

theorem falsy_cookie_unauthorized:
  assumes "\<not> truthy (ctx req)"
    and "cookieName (baseUrl req) = Inr k"
    and "signedCookies req k = Some v"
    and "\<not> truthy v"
  shows "authorizationMiddleware getUser req res =
           Inr \<lparr>request_after = req,
                response_after =
                  res\<lparr>statusCode := 401,
                      body := Some (js ''Incorrect cookie information present'')\<rparr>,
                calls = [ReadSignedCookie k]\<rparr>
       \<and> authorizationMiddleware getUser (req\<lparr>signedCookies := (signedCookies req)(k := None)\<rparr>) res =
           Inr \<lparr>request_after = req\<lparr>signedCookies := (signedCookies req)(k := None)\<rparr>,
                response_after =
                  res\<lparr>statusCode := 401,
                      body := Some (js ''Incorrect cookie information present'')\<rparr>,
                calls = [ReadSignedCookie k]\<rparr>"
  using assms by (simp add: authorizationMiddleware_def unauthorized_def)

theorem falsy_cookie_unauthorized_witness:
  "authorizationMiddleware (\<lambda>u. (JNull, JObject [(js ''id'', u)]))
     \<lparr>ctx = JUndefined, baseUrl = js ''/api/ucberkeley.canvas.com/21312'',
      signedCookies = [js ''ucberkeley.canvas.com_21312'' \<mapsto> JString (js '''')]\<rparr>
     \<lparr>statusCode = 200, body = None\<rparr> =
   Inr \<lparr>request_after =
          \<lparr>ctx = JUndefined, baseUrl = js ''/api/ucberkeley.canvas.com/21312'',
           signedCookies = [js ''ucberkeley.canvas.com_21312'' \<mapsto> JString (js '''')]\<rparr>,
        response_after =
          \<lparr>statusCode = 401, body = Some (js ''Incorrect cookie information present'')\<rparr>,
        calls = [ReadSignedCookie (js ''ucberkeley.canvas.com_21312'')]\<rparr>"
proof -
  have f: "\<not> truthy (JString (js ''''))" by (simp add: js_def)
  from falsy_cookie_unauthorized
         [of "\<lparr>ctx = JUndefined, baseUrl = js ''/api/ucberkeley.canvas.com/21312'',
               signedCookies = [js ''ucberkeley.canvas.com_21312'' \<mapsto> JString (js '''')]\<rparr>"
             "js ''ucberkeley.canvas.com_21312''" "JString (js '''')"
             "\<lambda>u. (JNull, JObject [(js ''id'', u)])" "\<lparr>statusCode = 200, body = None\<rparr>"]
       cookieName_ucberkeley f
  show ?thesis by simp
qed

section \<open>Properties of startup\<close>

subsection \<open>Runs\<close>

lemma run_nothing: "effects nothing = []" "thrown nothing = None"
  by (simp_all add: nothing_def)

lemma run_call: "effects (call env e) = [e]" "thrown (call env e) = throws env e"
  by (simp_all add: call_def)

lemma effects_andThen:
  "effects (andThen r s) = (if thrown r = None then effects r @ effects s else effects r)"
  by (simp add: andThen_def split: option.splits)

lemma thrown_andThen:
  "thrown (andThen r s) = (if thrown r = None then thrown s else thrown r)"
  by (simp add: andThen_def split: option.splits)



subsection \<open>Route discovery\<close>

lemma discovery_order_simps:
  "discovery_order env [] = []"
  "discovery_order env (m # ms) =
     (if existsSync env (restFile env m)
      then [ExistsSync (restFile env m), LogDebug (js ''Registering REST APIs for '' @ m),
            Require (restFile env m)]
      else [ExistsSync (restFile env m)]) @ discovery_order env ms"
  by (simp_all add: discovery_order_def)

lemmas run_simps =
  run_nothing run_call effects_andThen thrown_andThen discovery_order_simps

lemma discoverRoutes_prefix:
  "prefix (effects (discoverRoutes env ms)) (discovery_order env ms)"
  by (induction ms) (auto simp: run_simps)

lemma discoverRoutes_complete:
  "thrown (discoverRoutes env ms) = None \<Longrightarrow> effects (discoverRoutes env ms) = discovery_order env ms"
  by (induction ms) (auto simp: run_simps split: if_splits)

lemma discoverRoutes_returned:
  "thrown (discoverRoutes env ms) = None \<Longrightarrow>
     list_all (\<lambda>e. throws env e = None) (effects (discoverRoutes env ms))"
  by (induction ms) (auto simp: run_simps split: if_splits)

lemma discoverRoutes_thrower:
  "thrown (discoverRoutes env ms) = Some v \<Longrightarrow>
     effects (discoverRoutes env ms) \<noteq> [] \<and> throws env (last (effects (discoverRoutes env ms))) = Some v"
  by (induction ms) (auto simp: run_simps split: if_splits)

lemma discoverRoutes_before_last:
  "list_all (\<lambda>e. throws env e = None) (butlast (effects (discoverRoutes env ms)))"
proof (induction ms)
  case Nil
  then show ?case by (simp add: run_simps)
next
  case (Cons m ms)
  show ?case
  proof (cases "thrown (discoverRoutes env ms)")
    case None
    from discoverRoutes_returned [OF this] have "list_all (\<lambda>e. throws env e = None) (effects (discoverRoutes env ms))" .
    then show ?thesis
      by (auto simp: run_simps butlast_append list_all_iff dest: in_set_butlastD)
  next
    case (Some v)
    with discoverRoutes_thrower [of env ms v] have "effects (discoverRoutes env ms) \<noteq> []" by (simp add: run_simps)
    with Cons show ?thesis
      by (auto simp: run_simps butlast_append)
  qed
qed

lemma probed_discovery_order: "probed (discovery_order env ms) = map (restFile env) ms"
  by (induction ms) (auto simp: run_simps)

lemma loaded_discovery_order:
  "loaded (discovery_order env ms) =
     map (restFile env) (filter (\<lambda>m. existsSync env (restFile env m)) ms)"
  by (induction ms) (auto simp: run_simps)

lemma probed_append: "probed (xs @ ys) = probed xs @ probed ys"
  by (induction xs rule: probed.induct) auto

lemma loaded_append: "loaded (xs @ ys) = loaded xs @ loaded ys"
  by (induction xs rule: loaded.induct) auto

lemma probed_prefix: "prefix xs ys \<Longrightarrow> prefix (probed xs) (probed ys)"
  by (auto simp: run_simps prefix_def probed_append)

lemma loaded_prefix: "prefix xs ys \<Longrightarrow> prefix (loaded xs) (loaded ys)"
  by (auto simp: run_simps prefix_def loaded_append)




lemma initializeServer_complete:
  assumes "thrown (initializeServer env) = None"
  shows "effects (initializeServer env) =
           [SetUpServer, CreateRouter, RouterUseAuthorization,
            AppUse (js ''/api/:apidomain/:course''), GetAvailableModules] @
           discovery_order env (availableModules env) @
           [LogInfo (js ''Finished initializing REST APIs'')]"
  using assms discoverRoutes_complete [of env "availableModules env"]
  by (auto simp: run_simps initializeServer_def initializeAuthorizationMiddleware_def split: if_splits)


lemma initializeServer_discovery:
  assumes "thrown (initializeServer env) = None"
  shows "thrown (discoverRoutes env (availableModules env)) = None"
  using assms
  by (auto simp: run_simps initializeServer_def initializeAuthorizationMiddleware_def split: if_splits)

subsection \<open>The two installations\<close>

lemma restFile_installation:
  "restFile (installation db) (js ''lrs-core'') = js ''/srv/lrs/lib/lrs-core/rest.js''"
  "restFile (installation db) (js ''lrs-users'') = js ''/srv/lrs/lib/lrs-users/rest.js''"
  by (simp_all add: restFile_def installation_def posix_join_def posix_normalize_def js_def)

lemma restFile_broken_installation:
  "restFile broken_installation (js ''lrs-core'') = js ''/srv/lrs/lib/lrs-core/rest.js''"
  "restFile broken_installation (js ''lrs-users'') = js ''/srv/lrs/lib/lrs-users/rest.js''"
  by (simp_all add: restFile_def broken_installation_def posix_join_def posix_normalize_def js_def)

lemma installation_fields:
  "DB_init (installation db) = db"
  "Modules_init (installation db) = Invokes []"
  "availableModules (installation db) = [js ''lrs-core'', js ''lrs-users'']"
  "existsSync (installation db) p = (p = js ''/srv/lrs/lib/lrs-users/rest.js'')"
  "throws (installation db) e = None"
  by (simp_all add: installation_def)

lemma broken_installation_fields:
  "DB_init broken_installation = Invokes []"
  "Modules_init broken_installation = Invokes []"
  "availableModules broken_installation = [js ''lrs-core'', js ''lrs-users'']"
  "existsSync broken_installation p = True"
  "throws broken_installation (Require p) =
     (if p = js ''/srv/lrs/lib/lrs-core/rest.js'' then Some load_error else None)"
  "throws broken_installation (ExistsSync p) = None"
  "throws broken_installation (LogDebug p) = None"
  "throws broken_installation (LogInfo p) = None"
  "throws broken_installation (AppUse p) = None"
  "throws broken_installation (Callback a) = None"
  "throws broken_installation RequireGlobals = None"
  "throws broken_installation OnUncaughtException = None"
  "throws broken_installation SetUpServer = None"
  "throws broken_installation CreateRouter = None"
  "throws broken_installation RouterUseAuthorization = None"
  "throws broken_installation GetAvailableModules = None"
  by (simp_all add: broken_installation_def)

lemma paths_differ:
  "js ''/srv/lrs/lib/lrs-core/rest.js'' \<noteq> js ''/srv/lrs/lib/lrs-users/rest.js''"
  "js ''/srv/lrs/lib/lrs-users/rest.js'' \<noteq> js ''/srv/lrs/lib/lrs-core/rest.js''"
  by (simp_all add: js_def)

lemma log_lines:
  "js ''Registering REST APIs for '' @ js ''lrs-users'' = js ''Registering REST APIs for lrs-users''"
  "js ''Registering REST APIs for '' @ js ''lrs-core'' = js ''Registering REST APIs for lrs-core''"
  by (simp_all add: js_def)

lemma discoverRoutes_installation:
  "discoverRoutes (installation db) [js ''lrs-core'', js ''lrs-users''] =
     \<lparr>effects = [ExistsSync (js ''/srv/lrs/lib/lrs-core/rest.js''),
                 ExistsSync (js ''/srv/lrs/lib/lrs-users/rest.js''),
                 LogDebug (js ''Registering REST APIs for lrs-users''),
                 Require (js ''/srv/lrs/lib/lrs-users/rest.js'')],
      thrown = None\<rparr>"
  by (simp add: run_simps andThen_def call_def nothing_def installation_fields restFile_installation
      paths_differ log_lines)

lemma discoverRoutes_broken_installation:
  "discoverRoutes broken_installation [js ''lrs-core'', js ''lrs-users''] =
     \<lparr>effects = [ExistsSync (js ''/srv/lrs/lib/lrs-core/rest.js''),
                 LogDebug (js ''Registering REST APIs for lrs-core''),
                 Require (js ''/srv/lrs/lib/lrs-core/rest.js'')],
      thrown = Some load_error\<rparr>"
  by (simp add: run_simps andThen_def call_def nothing_def broken_installation_fields
      restFile_broken_installation paths_differ log_lines)

lemma initializeServer_installation:
  "initializeServer (installation db) =
     \<lparr>effects = [SetUpServer, CreateRouter, RouterUseAuthorization,
                 AppUse (js ''/api/:apidomain/:course''), GetAvailableModules,
                 ExistsSync (js ''/srv/lrs/lib/lrs-core/rest.js''),
                 ExistsSync (js ''/srv/lrs/lib/lrs-users/rest.js''),
                 LogDebug (js ''Registering REST APIs for lrs-users''),
                 Require (js ''/srv/lrs/lib/lrs-users/rest.js''),
                 LogInfo (js ''Finished initializing REST APIs'')],
      thrown = None\<rparr>"
  by (simp add: run_simps initializeServer_def initializeAuthorizationMiddleware_def andThen_def call_def
      nothing_def installation_fields restFile_installation paths_differ log_lines)

subsection \<open>Route discovery, as the code does it\<close>

text \<open>
  C8, as amended. Route discovery goes through the module list of the module loader in
  the order of the list: for each module it probes the \<open>rest.js\<close> path of the module
  and, before the next probe, loads the file if it exists and does nothing if it does
  not. It does so for every module when no call throws: then the probed paths are those
  of all modules, in order, and the loaded files are exactly the existing ones. A call
  that throws, the load of a \<open>rest.js\<close> that raises for one, ends discovery there: it is
  the last call made, every call before it has returned, and the calls made, the probes
  and the loads are an initial part of those of the full order.
\<close>

theorem route_discovery_in_module_order:
  "prefix (effects (discoverRoutes env ms)) (discovery_order env ms)
   \<and> prefix (probed (effects (discoverRoutes env ms))) (map (restFile env) ms)
   \<and> prefix (loaded (effects (discoverRoutes env ms)))
        (map (restFile env) (filter (\<lambda>m. existsSync env (restFile env m)) ms))
   \<and> (thrown (discoverRoutes env ms) = None \<longrightarrow>
        effects (discoverRoutes env ms) = discovery_order env ms
        \<and> probed (effects (discoverRoutes env ms)) = map (restFile env) ms
        \<and> loaded (effects (discoverRoutes env ms)) =
            map (restFile env) (filter (\<lambda>m. existsSync env (restFile env m)) ms))
   \<and> (thrown (discoverRoutes env ms) = Some v \<longrightarrow>
        effects (discoverRoutes env ms) \<noteq> []
        \<and> throws env (last (effects (discoverRoutes env ms))) = Some v)
   \<and> list_all (\<lambda>e. throws env e = None) (butlast (effects (discoverRoutes env ms)))
   \<and> (thrown (initializeServer env) = None \<longrightarrow>
        probed (effects (initializeServer env)) = map (restFile env) (availableModules env)
        \<and> loaded (effects (initializeServer env)) =
            map (restFile env)
              (filter (\<lambda>m. existsSync env (restFile env m)) (availableModules env)))"
proof -
  have order: "prefix (effects (discoverRoutes env ms)) (discovery_order env ms)"
    by (rule discoverRoutes_prefix)
  have probes: "prefix (probed (effects (discoverRoutes env ms))) (map (restFile env) ms)"
    using probed_prefix [OF order] by (simp add: run_simps probed_discovery_order)
  have loads: "prefix (loaded (effects (discoverRoutes env ms)))
                 (map (restFile env) (filter (\<lambda>m. existsSync env (restFile env m)) ms))"
    using loaded_prefix [OF order] by (simp add: run_simps loaded_discovery_order)
  have complete: "thrown (discoverRoutes env ms) = None \<longrightarrow>
        effects (discoverRoutes env ms) = discovery_order env ms
        \<and> probed (effects (discoverRoutes env ms)) = map (restFile env) ms
        \<and> loaded (effects (discoverRoutes env ms)) =
            map (restFile env) (filter (\<lambda>m. existsSync env (restFile env m)) ms)"
    by (simp add: run_simps discoverRoutes_complete probed_discovery_order loaded_discovery_order)
  have stops: "thrown (discoverRoutes env ms) = Some v \<longrightarrow>
        effects (discoverRoutes env ms) \<noteq> []
        \<and> throws env (last (effects (discoverRoutes env ms))) = Some v"
    using discoverRoutes_thrower [of env ms v] by blast
  have before: "list_all (\<lambda>e. throws env e = None) (butlast (effects (discoverRoutes env ms)))"
    by (rule discoverRoutes_before_last)
  have server: "thrown (initializeServer env) = None \<longrightarrow>
        probed (effects (initializeServer env)) = map (restFile env) (availableModules env)
        \<and> loaded (effects (initializeServer env)) =
            map (restFile env)
              (filter (\<lambda>m. existsSync env (restFile env m)) (availableModules env))"
    by (simp add: run_simps initializeServer_complete probed_append loaded_append
        probed_discovery_order loaded_discovery_order)
  from order probes loads complete stops before server show ?thesis by blast
qed

theorem route_discovery_in_module_order_witness:
  "thrown (discoverRoutes (installation NeverInvokes) [js ''lrs-core'', js ''lrs-users'']) = None
   \<and> probed (effects (discoverRoutes (installation NeverInvokes) [js ''lrs-core'', js ''lrs-users''])) =
       [js ''/srv/lrs/lib/lrs-core/rest.js'', js ''/srv/lrs/lib/lrs-users/rest.js'']
   \<and> loaded (effects (discoverRoutes (installation NeverInvokes) [js ''lrs-core'', js ''lrs-users''])) =
       [js ''/srv/lrs/lib/lrs-users/rest.js'']
   \<and> thrown (discoverRoutes broken_installation [js ''lrs-core'', js ''lrs-users'']) = Some load_error
   \<and> throws broken_installation
        (last (effects (discoverRoutes broken_installation [js ''lrs-core'', js ''lrs-users'']))) =
       Some load_error
   \<and> last (effects (discoverRoutes broken_installation [js ''lrs-core'', js ''lrs-users''])) =
       Require (js ''/srv/lrs/lib/lrs-core/rest.js'')"
proof -
  have ok: "thrown (discoverRoutes (installation NeverInvokes) [js ''lrs-core'', js ''lrs-users'']) = None"
    unfolding discoverRoutes_installation by (simp add: run_simps)
  have bad: "thrown (discoverRoutes broken_installation [js ''lrs-core'', js ''lrs-users'']) = Some load_error"
    unfolding discoverRoutes_broken_installation by (simp add: run_simps)
  from route_discovery_in_module_order
         [of "installation NeverInvokes" "[js ''lrs-core'', js ''lrs-users'']" load_error] ok
  have "probed (effects (discoverRoutes (installation NeverInvokes) [js ''lrs-core'', js ''lrs-users''])) =
          map (restFile (installation NeverInvokes)) [js ''lrs-core'', js ''lrs-users'']"
    and "loaded (effects (discoverRoutes (installation NeverInvokes) [js ''lrs-core'', js ''lrs-users''])) =
          map (restFile (installation NeverInvokes))
            (filter (\<lambda>m. existsSync (installation NeverInvokes) (restFile (installation NeverInvokes) m))
               [js ''lrs-core'', js ''lrs-users''])"
    by blast+
  moreover from route_discovery_in_module_order
         [of broken_installation "[js ''lrs-core'', js ''lrs-users'']" load_error] bad
  have "throws broken_installation
        (last (effects (discoverRoutes broken_installation [js ''lrs-core'', js ''lrs-users'']))) =
       Some load_error"
    by blast
  moreover have "last (effects (discoverRoutes broken_installation [js ''lrs-core'', js ''lrs-users''])) =
       Require (js ''/srv/lrs/lib/lrs-core/rest.js'')"
    unfolding discoverRoutes_broken_installation by (simp add: run_simps)
  ultimately show ?thesis
    using ok bad
    by (simp add: run_simps installation_fields restFile_installation paths_differ)
qed

text \<open>
  The statement without the exception fails: in the installation where the \<open>rest.js\<close>
  of \<open>lrs-core\<close> raises while it is loaded, \<open>lrs-users\<close> is in the module list and its
  \<open>rest.js\<close> exists, and yet it is neither probed nor loaded.
\<close>

theorem route_discovery_every_module_counterexample:
  "availableModules broken_installation = [js ''lrs-core'', js ''lrs-users'']
   \<and> existsSync broken_installation (restFile broken_installation (js ''lrs-users''))
   \<and> effects (initializeServer broken_installation) =
       [SetUpServer, CreateRouter, RouterUseAuthorization,
        AppUse (js ''/api/:apidomain/:course''), GetAvailableModules,
        ExistsSync (js ''/srv/lrs/lib/lrs-core/rest.js''),
        LogDebug (js ''Registering REST APIs for lrs-core''),
        Require (js ''/srv/lrs/lib/lrs-core/rest.js'')]
   \<and> thrown (initializeServer broken_installation) = Some load_error
   \<and> restFile broken_installation (js ''lrs-users'')
        \<notin> set (probed (effects (initializeServer broken_installation)))
   \<and> restFile broken_installation (js ''lrs-users'')
        \<notin> set (loaded (effects (initializeServer broken_installation)))"
  by (simp add: run_simps initializeServer_def initializeAuthorizationMiddleware_def
      broken_installation_fields restFile_broken_installation paths_differ log_lines)

subsection \<open>The order of startup\<close>







text \<open>
  C6. Startup with a database initializer that reports an error to its callback: module
  initialization, server setup and route discovery run all the same, and the callback
  of \<open>init\<close> is invoked without an error.
\<close>

theorem database_error_does_not_stop_startup:
  "init (installation (Invokes [JObject [(js ''code'', JNum 500),
                                         (js ''msg'', JString (js ''Unable to set up a connection to the database''))]])) =
     \<lparr>effects =
        [RequireGlobals, OnUncaughtException, DBInit, ModulesInit, SetUpServer, CreateRouter,
         RouterUseAuthorization, AppUse (js ''/api/:apidomain/:course''), GetAvailableModules,
         ExistsSync (js ''/srv/lrs/lib/lrs-core/rest.js''),
         ExistsSync (js ''/srv/lrs/lib/lrs-users/rest.js''),
         LogDebug (js ''Registering REST APIs for lrs-users''),
         Require (js ''/srv/lrs/lib/lrs-users/rest.js''),
         LogInfo (js ''Finished initializing REST APIs''),
         Callback []],
      thrown = None\<rparr>"
  by (simp add: run_simps init_def initializer_def initializeServer_installation andThen_def call_def
      nothing_def installation_fields)

end
